theory Spec2Isabelle
  imports Main "HOL-Library.Word"
begin

section \<open>JavaScript values\<close>

text \<open>
  A JavaScript expression that may lack a value has one of two distinct empty results,
  \<^verbatim>\<open>undefined\<close> and \<^verbatim>\<open>null\<close>; \<^verbatim>\<open>===\<close> tells them apart. The fields of
  \<^verbatim>\<open>Extracted\<close> use both (\<^verbatim>\<open>hash: string | null\<close>, \<^verbatim>\<open>overrides?: ComponentMap\<close>),
  so the model keeps both.
\<close>

datatype 'a optional = Undefined | Null | Defined 'a

text \<open>
  What a call can throw: the \<^verbatim>\<open>TypeError\<close> of a property read on \<^verbatim>\<open>undefined\<close>, or
  an \<^verbatim>\<open>Error\<close> with a message raised by a library function.
\<close>

datatype js_error = TypeError | Error string

text \<open>
  \<^verbatim>\<open>Array.prototype.map\<close> with a callback that may throw: the elements are visited in
  order and the first exception leaves the loop.
\<close>

fun map_throwing :: "('a \<Rightarrow> js_error + 'b) \<Rightarrow> 'a list \<Rightarrow> js_error + 'b list" where
  "map_throwing f [] = Inr []"
| "map_throwing f (x # xs) =
     (case f x of
        Inl e \<Rightarrow> Inl e
      | Inr y \<Rightarrow> (case map_throwing f xs of Inl e \<Rightarrow> Inl e | Inr ys \<Rightarrow> Inr (y # ys)))"

section \<open>The codec objects handed to the component\<close>

text \<open>
  \<^verbatim>\<open>Text\<close> and \<^verbatim>\<open>Type\<close> of the codec library wrap a string; \<^verbatim>\<open>toString()\<close> returns it.
\<close>

datatype Text = Text string

primrec toString :: "Text \<Rightarrow> string" where
  "toString (Text s) = s"

text \<open>One declared argument of a call, \<^verbatim>\<open>{ name, type }\<close>, and the call's metadata.\<close>

record FunctionArgumentMetadata =
  name :: Text
  type :: Text

record FunctionMetadataLatest =
  args :: "FunctionArgumentMetadata list"

text \<open>
  \<^verbatim>\<open>IMethod\<close>: the actual argument values (codec objects, type \<open>'c\<close>), the metadata and
  the content hash (a codec object over bytes, type \<open>'h\<close>). The metadata is looked up when
  \<^verbatim>\<open>value.meta\<close> is read; \<^verbatim>\<open>None\<close> is a value on which that read yields nothing to take
  \<^verbatim>\<open>.args\<close> from.
\<close>

record ('c, 'h) IMethod =
  args :: "'c list"
  meta :: "FunctionMetadataLatest option"
  hash :: 'h

text \<open>
  The low-level wrapper reached by \<^verbatim>\<open>_raw?.signature?.multiSignature\<close>: an instance of
  \<^verbatim>\<open>Enum\<close>, which has a \<^verbatim>\<open>type\<close> tag, or some other object.
\<close>

datatype ExtrinsicSignature = Enum string | NotEnum

datatype RawSignature = RawSignature (multiSignature: "ExtrinsicSignature option")

datatype RawExtrinsic = RawExtrinsic (raw_signature: "RawSignature option")

text \<open>\<^verbatim>\<open>IExtrinsic\<close> extends \<^verbatim>\<open>IMethod\<close> with the signature members.\<close>

record ('c, 'h) IExtrinsic = "('c, 'h) IMethod" +
  signature :: 'h
  isSigned :: bool
  raw :: "RawExtrinsic option"

text \<open>The argument type \<^verbatim>\<open>IExtrinsic | IMethod\<close>.\<close>

datatype ('c, 'h) Input = Extrinsic "('c, 'h) IExtrinsic" | Method "('c, 'h) IMethod"

text \<open>The members that both variants have are read through the \<^verbatim>\<open>IMethod\<close> part.\<close>

primrec methodOf :: "('c, 'h) Input \<Rightarrow> ('c, 'h) IMethod" where
  "methodOf (Extrinsic x) = IMethod.truncate x"
| "methodOf (Method m) = m"

section \<open>Call: the extracted state\<close>

record 'td Param =
  name :: string
  type :: 'td

record 'c Value =
  isValid :: bool
  val :: 'c

record ('c, 'td, 'o) Extracted =
  hash :: "string optional"
  overrides :: "'o optional"
  params :: "'td Param list"
  signature :: "string optional"
  signatureType :: "string optional"
  "values" :: "'c Value list"

text \<open>
  \<^verbatim>\<open>isExtrinsic\<close> tests \<^verbatim>\<open>!!value.signature\<close>. An \<^verbatim>\<open>IMethod\<close> has no such property;
  on an \<^verbatim>\<open>IExtrinsic\<close> it is an object, and every object is truthy.
\<close>

primrec isExtrinsic :: "('c, 'h) Input \<Rightarrow> bool" where
  "isExtrinsic (Extrinsic x) = True"
| "isExtrinsic (Method m) = False"

text \<open>The two optional steps of \<^verbatim>\<open>_raw?.signature?.multiSignature\<close>.\<close>

definition getRawSignature :: "('c, 'h) IExtrinsic \<Rightarrow> ExtrinsicSignature option" where
  "getRawSignature x =
     (case raw x of
        None \<Rightarrow> None
      | Some r \<Rightarrow> (case raw_signature r of None \<Rightarrow> None | Some s \<Rightarrow> multiSignature s))"

text \<open>Truthiness of an optional boolean and of an optional string argument.\<close>

fun truthy_flag :: "bool option \<Rightarrow> bool" where
  "truthy_flag None = False"
| "truthy_flag (Some b) = b"

fun truthy_string :: "string option \<Rightarrow> bool" where
  "truthy_string None = False"
| "truthy_string (Some s) = (s \<noteq> [])"

text \<open>
  What the module imports and these sources do not contain: the constants
  \<^verbatim>\<open>balanceCalls\<close> and \<^verbatim>\<open>balanceCallsOverrides\<close> of \<^verbatim>\<open>./constants\<close>, and from the codec
  library \<^verbatim>\<open>getTypeDef\<close>, which parses a type string and may throw, and \<^verbatim>\<open>toHex()\<close> of
  hashes and signatures. They are parameters of the model.
\<close>

record ('o, 'td, 'h) Imports =
  balanceCalls :: "string list"
  balanceCallsOverrides :: 'o
  getTypeDef :: "string \<Rightarrow> js_error + 'td"
  toHex :: "'h \<Rightarrow> string"

text \<open>
  The callback of \<^verbatim>\<open>value.meta.args.map\<close>: one \<^verbatim>\<open>Param\<close> per declared argument, unless
  \<^verbatim>\<open>getTypeDef\<close> throws on its type string.
\<close>

definition toParam ::
  "('o, 'td, 'h) Imports \<Rightarrow> FunctionArgumentMetadata \<Rightarrow> js_error + 'td Param" where
  "toParam imports' a =
     (case getTypeDef imports' (toString (FunctionArgumentMetadata.type a)) of
        Inl e \<Rightarrow> Inl e
      | Inr td \<Rightarrow>
          Inr \<lparr>Param.name = toString (FunctionArgumentMetadata.name a), Param.type = td\<rparr>)"

text \<open>
  \<^verbatim>\<open>extractState\<close>, statement by statement in the source's order: overrides, params (the
  only statement that can throw: \<^verbatim>\<open>value.meta.args\<close> on missing metadata, or
  \<^verbatim>\<open>getTypeDef\<close>), values, hash, signature and signatureType.
\<close>

definition extractState ::
  "('o, 'td, 'h) Imports \<Rightarrow> ('c, 'h) Input \<Rightarrow> bool option \<Rightarrow> bool option \<Rightarrow> string option \<Rightarrow>
   js_error + ('c, 'td, 'o) Extracted" where
  "extractState imports' value' withHash withSignature callName =
     (let overrides' =
            (case callName of
               None \<Rightarrow> Undefined
             | Some n \<Rightarrow>
                 if truthy_string callName \<and> n \<in> set (balanceCalls imports')
                 then Defined (balanceCallsOverrides imports') else Undefined)
      in case IMethod.meta (methodOf value') of
           None \<Rightarrow> Inl TypeError
         | Some m \<Rightarrow>
             (case map_throwing (toParam imports') (FunctionMetadataLatest.args m) of
                Inl e \<Rightarrow> Inl e
              | Inr params' \<Rightarrow>
                  (let values' = map (\<lambda>v. \<lparr>isValid = True, val = v\<rparr>) (IMethod.args (methodOf value'));
                       hash' = (if truthy_flag withHash
                                then Defined (toHex imports' (IMethod.hash (methodOf value')))
                                else Null);
                       (signature', signatureType') =
                         (case value' of
                            Extrinsic x \<Rightarrow>
                              if truthy_flag withSignature \<and> isExtrinsic value' \<and> isSigned x
                              then (Defined (toHex imports' (IExtrinsic.signature x)),
                                    (case getRawSignature x of
                                       Some (Enum t) \<Rightarrow> Defined t
                                     | _ \<Rightarrow> Null))
                              else (Null, Null)
                          | Method _ \<Rightarrow> (Null, Null))
                   in Inr \<lparr>hash = hash', overrides = overrides', params = params',
                           signature = signature', signatureType = signatureType',
                           values = values'\<rparr>)))"

section \<open>extractState as a sequence of reads\<close>

text \<open>
  The same function once more, with every access to the world outside it made explicit:
  reading a module-level binding, reading a member of \<^verbatim>\<open>value\<close> through its getter,
  calling an imported function. Each such step takes the state of that world (type \<open>'s\<close>)
  and hands it back, possibly changed; \<^verbatim>\<open>value\<close> is a reference (type \<open>'v\<close>).
\<close>

record ('s, 'v, 'c, 'h, 'o, 'td) World =
  read_balanceCalls :: "'s \<Rightarrow> string list \<times> 's"
  read_balanceCallsOverrides :: "'s \<Rightarrow> 'o \<times> 's"
  call_getTypeDef :: "string \<Rightarrow> 's \<Rightarrow> (js_error + 'td) \<times> 's"
  call_toHex :: "'h \<Rightarrow> 's \<Rightarrow> string \<times> 's"
  read_meta :: "'v \<Rightarrow> 's \<Rightarrow> FunctionMetadataLatest option \<times> 's"
  read_args :: "'v \<Rightarrow> 's \<Rightarrow> 'c list \<times> 's"
  read_hash :: "'v \<Rightarrow> 's \<Rightarrow> 'h \<times> 's"
  read_signature :: "'v \<Rightarrow> 's \<Rightarrow> 'h option \<times> 's"
  read_isSigned :: "'v \<Rightarrow> 's \<Rightarrow> bool \<times> 's"
  read_raw :: "'v \<Rightarrow> 's \<Rightarrow> RawExtrinsic option \<times> 's"

text \<open>Returning a value without touching the state, and running one step after another.\<close>

definition ret :: "'a \<Rightarrow> 's \<Rightarrow> 'a \<times> 's" where
  "ret x = (\<lambda>s. (x, s))"

definition andThen :: "('s \<Rightarrow> 'a \<times> 's) \<Rightarrow> ('a \<Rightarrow> 's \<Rightarrow> 'b \<times> 's) \<Rightarrow> 's \<Rightarrow> 'b \<times> 's" where
  "andThen m f = (\<lambda>s. case m s of (x, s') \<Rightarrow> f x s')"

text \<open>\<^verbatim>\<open>Array.prototype.map\<close> with a callback that acts on the state and may throw.\<close>

fun map_throwing_st ::
  "('a \<Rightarrow> 's \<Rightarrow> (js_error + 'b) \<times> 's) \<Rightarrow> 'a list \<Rightarrow> 's \<Rightarrow> (js_error + 'b list) \<times> 's" where
  "map_throwing_st f [] = ret (Inr [])"
| "map_throwing_st f (x # xs) =
     andThen (f x) (\<lambda>r.
       case r of
         Inl e \<Rightarrow> ret (Inl e)
       | Inr y \<Rightarrow>
           andThen (map_throwing_st f xs) (\<lambda>rs.
             case rs of Inl e \<Rightarrow> ret (Inl e) | Inr ys \<Rightarrow> ret (Inr (y # ys))))"

text \<open>The callback of \<^verbatim>\<open>value.meta.args.map\<close>; its one step is the call of \<^verbatim>\<open>getTypeDef\<close>.\<close>

definition toParam_st ::
  "('s, 'v, 'c, 'h, 'o, 'td) World \<Rightarrow> FunctionArgumentMetadata \<Rightarrow>
   's \<Rightarrow> (js_error + 'td Param) \<times> 's" where
  "toParam_st world a =
     andThen (call_getTypeDef world (toString (FunctionArgumentMetadata.type a))) (\<lambda>r.
       case r of
         Inl e \<Rightarrow> ret (Inl e)
       | Inr td \<Rightarrow>
           ret (Inr \<lparr>Param.name = toString (FunctionArgumentMetadata.name a),
                     Param.type = td\<rparr>))"

text \<open>
  The first statement: \<^verbatim>\<open>balanceCalls\<close> is read only for a truthy \<^verbatim>\<open>callName\<close>, and
  \<^verbatim>\<open>balanceCallsOverrides\<close> only on a match.
\<close>

definition overrides_st ::
  "('s, 'v, 'c, 'h, 'o, 'td) World \<Rightarrow> string option \<Rightarrow> 's \<Rightarrow> 'o optional \<times> 's" where
  "overrides_st world callName =
     (case callName of
        None \<Rightarrow> ret Undefined
      | Some n \<Rightarrow>
          if truthy_string callName
          then andThen (read_balanceCalls world) (\<lambda>calls.
                 if n \<in> set calls
                 then andThen (read_balanceCallsOverrides world) (\<lambda>ov. ret (Defined ov))
                 else ret Undefined)
          else ret Undefined)"

text \<open>The hash: \<^verbatim>\<open>value.hash\<close> is read and \<^verbatim>\<open>toHex\<close> called only under \<^verbatim>\<open>withHash\<close>.\<close>

definition hash_st ::
  "('s, 'v, 'c, 'h, 'o, 'td) World \<Rightarrow> 'v \<Rightarrow> bool option \<Rightarrow> 's \<Rightarrow> string optional \<times> 's" where
  "hash_st world value' withHash =
     (if truthy_flag withHash
      then andThen (read_hash world value') (\<lambda>h.
           andThen (call_toHex world h) (\<lambda>hex. ret (Defined hex)))
      else ret Null)"

text \<open>
  The signature block: under \<^verbatim>\<open>withSignature\<close>, \<^verbatim>\<open>value.signature\<close> is read for
  \<^verbatim>\<open>isExtrinsic\<close>, then \<^verbatim>\<open>value.isSigned\<close>, then \<^verbatim>\<open>_raw\<close> and its two members, then
  \<^verbatim>\<open>value.signature\<close> again for \<^verbatim>\<open>toHex\<close>, which throws if the member is gone.
\<close>

definition signature_st ::
  "('s, 'v, 'c, 'h, 'o, 'td) World \<Rightarrow> 'v \<Rightarrow> bool option \<Rightarrow>
   's \<Rightarrow> (js_error + string optional \<times> string optional) \<times> 's" where
  "signature_st world value' withSignature =
     (if truthy_flag withSignature
      then andThen (read_signature world value') (\<lambda>member.
             case member of
               None \<Rightarrow> ret (Inr (Null, Null))
             | Some _ \<Rightarrow>
                 andThen (read_isSigned world value') (\<lambda>signed.
                   if signed
                   then andThen (read_raw world value') (\<lambda>raw'.
                        andThen (read_signature world value') (\<lambda>member'.
                          case member' of
                            None \<Rightarrow> ret (Inl TypeError)
                          | Some sg \<Rightarrow>
                              andThen (call_toHex world sg) (\<lambda>hex.
                                ret (Inr (Defined hex,
                                     (case raw' of
                                        None \<Rightarrow> Null
                                      | Some r \<Rightarrow>
                                          (case raw_signature r of
                                             None \<Rightarrow> Null
                                           | Some s \<Rightarrow>
                                               (case multiSignature s of
                                                  Some (Enum t) \<Rightarrow> Defined t
                                                | _ \<Rightarrow> Null))))))))
                   else ret (Inr (Null, Null))))
      else ret (Inr (Null, Null)))"

text \<open>
  The statements of \<^verbatim>\<open>extractState\<close> in the source's order: overrides, params
  (\<^verbatim>\<open>value.meta\<close>, then \<^verbatim>\<open>getTypeDef\<close> per declared argument), values (\<^verbatim>\<open>value.args\<close>),
  hash, signature. The function itself writes nothing.
\<close>

definition extractState_st ::
  "('s, 'v, 'c, 'h, 'o, 'td) World \<Rightarrow> 'v \<Rightarrow> bool option \<Rightarrow> bool option \<Rightarrow> string option \<Rightarrow>
   's \<Rightarrow> (js_error + ('c, 'td, 'o) Extracted) \<times> 's" where
  "extractState_st world value' withHash withSignature callName =
     andThen (overrides_st world callName) (\<lambda>overrides'.
     andThen (read_meta world value') (\<lambda>meta'.
       case meta' of
         None \<Rightarrow> ret (Inl TypeError)
       | Some m \<Rightarrow>
     andThen (map_throwing_st (toParam_st world) (FunctionMetadataLatest.args m)) (\<lambda>mapped.
       case mapped of
         Inl e \<Rightarrow> ret (Inl e)
       | Inr params' \<Rightarrow>
     andThen (read_args world value') (\<lambda>args'.
     andThen (hash_st world value' withHash) (\<lambda>hash'.
     andThen (signature_st world value' withSignature) (\<lambda>signed'.
       case signed' of
         Inl e \<Rightarrow> ret (Inl e)
       | Inr (signature', signatureType') \<Rightarrow>
           ret (Inr \<lparr>hash = hash', overrides = overrides', params = params',
                     signature = signature', signatureType = signatureType',
                     values = map (\<lambda>v. \<lparr>isValid = True, val = v\<rparr>) args'\<rparr>)))))))"

text \<open>
  A step is a pure read when it hands the state back as it got it; a world is read-only
  when each of its steps is one. This is what the spec assumes of the world around the
  function: the registry is immutable after initialisation, and the decoded value is not
  changed by looking at it.
\<close>

definition preserves :: "('s \<Rightarrow> 'a \<times> 's) \<Rightarrow> bool" where
  "preserves m \<longleftrightarrow> (\<forall>s. snd (m s) = s)"



section \<open>ProposedAction\<close>

text \<open>
  \<^verbatim>\<open>idNumber?: BN | number | string\<close>: a numeric identifier (a \<^verbatim>\<open>BN\<close> or a JavaScript
  \<^verbatim>\<open>number\<close>, type \<open>'n\<close>, which only \<^verbatim>\<open>formatNumber\<close> looks into) or a string.
\<close>

datatype 'n IdNumber = Num 'n | Str string

text \<open>The props handed to \<^verbatim>\<open>CallExpander\<close>, and the two elements the component returns.\<close>

record 'p CallExpanderProps =
  isHeader :: bool
  labelHash :: string
  stringId :: "string option"
  proposal_value :: 'p
  withHash :: bool

datatype 'p Element =
    Placeholder (className: string) (text_of: string)
  | Expander (className: string) (props_of: "'p CallExpanderProps")

text \<open>
  \<^verbatim>\<open>ProposedAction\<close>. The translation function \<^verbatim>\<open>t\<close> and \<^verbatim>\<open>formatNumber\<close> of the
  utility library are imported, hence parameters; \<^verbatim>\<open>formatNumber\<close> may throw on a number
  it cannot convert. \<^verbatim>\<open>stringId\<close> is computed first, whether or not there is a proposal.
  \<^verbatim>\<open>className\<close> defaults to the empty string; \<^verbatim>\<open>!proposal\<close> holds for \<^verbatim>\<open>undefined\<close> and
  \<^verbatim>\<open>null\<close>; the prefix is rendered when \<^verbatim>\<open>stringId\<close> is truthy.
\<close>

definition ProposedAction ::
  "(string \<Rightarrow> string) \<Rightarrow> ('n \<Rightarrow> js_error + string) \<Rightarrow>
   string option \<Rightarrow> 'n IdNumber option \<Rightarrow> 'p optional \<Rightarrow> js_error + 'p Element" where
  "ProposedAction t formatNumber className' idNumber proposal =
     (let className'' = (case className' of None \<Rightarrow> [] | Some c \<Rightarrow> c)
      in case (case idNumber of
                 None \<Rightarrow> Inr None
               | Some (Str s) \<Rightarrow> Inr (Some s)
               | Some (Num n) \<Rightarrow>
                   (case formatNumber n of Inl e \<Rightarrow> Inl e | Inr s \<Rightarrow> Inr (Some s))) of
           Inl e \<Rightarrow> Inl e
         | Inr stringId' \<Rightarrow>
             Inr (case proposal of
                    Defined p \<Rightarrow>
                      Expander (''ui--ProposedAction '' @ className'')
                        \<lparr>isHeader = True, labelHash = t ''preimage'', stringId = stringId',
                         proposal_value = p, withHash = True\<rparr>
                  | _ \<Rightarrow>
                      Placeholder (''ui--ProposedAction '' @ className'')
                        ((case stringId' of
                            None \<Rightarrow> []
                          | Some s \<Rightarrow>
                              if truthy_string stringId' then ''#'' @ s @ '': '' else [])
                         @ t ''No execution details available for this proposal'')))"

section \<open>Sample imports and inputs\<close>

text \<open>
  Modelled from the spec: \<^verbatim>\<open>toHex()\<close> belongs to the codec library, which is not part of
  these sources; the spec describes its result as the hexadecimal string of the bytes with
  a leading prefix. Here: \<^verbatim>\<open>0x\<close>, then two lower-case digits per byte.
\<close>

type_synonym U8a = "8 word list"

definition hexDigit :: "nat \<Rightarrow> char" where
  "hexDigit n = ''0123456789abcdef'' ! (n mod 16)"

definition u8aToHex :: "U8a \<Rightarrow> string" where
  "u8aToHex bs =
     ''0x'' @ concat (map (\<lambda>b. [hexDigit (unat b div 16), hexDigit (unat b mod 16)]) bs)"

text \<open>
  Modelled from the spec: \<^verbatim>\<open>formatNumber\<close> belongs to the utility library, which is not
  part of these sources; the spec describes it as formatting a number with
  thousands-grouping. Here, for an integral JavaScript number: the decimal digits in
  groups of three from the right, separated by commas, after the sign; the library's
  big-number constructor refuses a number of magnitude \<open>2^53\<close> or more, and the call throws.
\<close>

definition digitChar :: "nat \<Rightarrow> char" where
  "digitChar n = ''0123456789'' ! (n mod 10)"

fun natToString :: "nat \<Rightarrow> string" where
  "natToString n = (if n < 10 then [digitChar n] else natToString (n div 10) @ [digitChar (n mod 10)])"

declare natToString.simps [simp del]

fun chunks3 :: "'a list \<Rightarrow> 'a list list" where
  "chunks3 (a # b # c # d # xs) = [a, b, c] # chunks3 (d # xs)"
| "chunks3 xs = [xs]"

fun join :: "string \<Rightarrow> string list \<Rightarrow> string" where
  "join sep [] = []"
| "join sep [x] = x"
| "join sep (x # y # ys) = x @ sep @ join sep (y # ys)"

definition formatDecimal :: "string \<Rightarrow> string" where
  "formatDecimal ds = join '','' (map rev (rev (chunks3 (rev ds))))"

definition formatNumber :: "int \<Rightarrow> js_error + string" where
  "formatNumber i =
     (if 9007199254740992 \<le> \<bar>i\<bar> then Inl (Error ''Assertion failed'')
      else if i < 0 then Inr (''-'' @ formatDecimal (natToString (nat (- i))))
      else Inr (formatDecimal (natToString (nat i))))"

text \<open>
  A stand-in for \<^verbatim>\<open>getTypeDef\<close>, enough to exercise both outcomes: like the library it
  throws on a bracketed type that has no \<^verbatim>\<open>;\<close> before its length, such as \<^verbatim>\<open>[u8]\<close>; it
  returns any other string as its own descriptor.
\<close>

definition sampleTypeDef :: "string \<Rightarrow> js_error + string" where
  "sampleTypeDef s =
     (if take 1 s = ''['' \<and> take 1 (rev s) = '']'' \<and> CHR '';'' \<notin> set s
      then Inl (Error (s @ '': Unable to extract location of ;''))
      else Inr s)"

text \<open>A registry of two call names with an override map (here a list of type names).\<close>

definition sampleImports :: "(string list, string, U8a) Imports" where
  "sampleImports =
     \<lparr>balanceCalls = [''balances.transfer'', ''staking.bond''],
      balanceCallsOverrides = [''Balance''],
      getTypeDef = sampleTypeDef,
      toHex = u8aToHex\<rparr>"


text \<open>
  The transfer of the spec's scenario: two declared arguments, \<^verbatim>\<open>dest\<close> and \<^verbatim>\<open>value\<close>,
  and two actual values.
\<close>

definition transferMeta :: FunctionMetadataLatest where
  "transferMeta =
     \<lparr>FunctionMetadataLatest.args =
        [\<lparr>FunctionArgumentMetadata.name = Text ''dest'',
          FunctionArgumentMetadata.type = Text ''AccountId''\<rparr>,
         \<lparr>FunctionArgumentMetadata.name = Text ''value'',
          FunctionArgumentMetadata.type = Text ''Balance''\<rparr>]\<rparr>"

definition transferMethod :: "(string, U8a) IMethod" where
  "transferMethod =
     \<lparr>IMethod.args = [''5Grw'', ''500''], IMethod.meta = Some transferMeta,
      IMethod.hash = [0x01, 0xab, 0xff]\<rparr>"

text \<open>The same call inside a signed extrinsic whose raw signature wrapper is tagged.\<close>

definition signedTransfer :: "(string, U8a) IExtrinsic" where
  "signedTransfer =
     \<lparr>IMethod.args = [''5Grw'', ''500''], IMethod.meta = Some transferMeta,
      IMethod.hash = [0x01, 0xab, 0xff],
      IExtrinsic.signature = [0x0a, 0x10], isSigned = True,
      raw = Some (RawExtrinsic (Some (RawSignature (Some (Enum ''Sr25519'')))))\<rparr>"

text \<open>
  The same signed extrinsic without a \<^verbatim>\<open>_raw\<close> member, and with a raw wrapper that is
  not an \<^verbatim>\<open>Enum\<close>.
\<close>

definition unwrappedTransfer :: "(string, U8a) IExtrinsic" where
  "unwrappedTransfer =
     \<lparr>IMethod.args = [''5Grw'', ''500''], IMethod.meta = Some transferMeta,
      IMethod.hash = [0x01, 0xab, 0xff],
      IExtrinsic.signature = [0x0a, 0x10], isSigned = True,
      raw = None\<rparr>"

definition untaggedTransfer :: "(string, U8a) IExtrinsic" where
  "untaggedTransfer =
     \<lparr>IMethod.args = [''5Grw'', ''500''], IMethod.meta = Some transferMeta,
      IMethod.hash = [0x01, 0xab, 0xff],
      IExtrinsic.signature = [0x0a, 0x10], isSigned = True,
      raw = Some (RawExtrinsic (Some (RawSignature (Some NotEnum))))\<rparr>"

text \<open>
  A method whose metadata cannot be read, and one whose second declared type
  \<^verbatim>\<open>getTypeDef\<close> rejects.
\<close>

definition noMetaMethod :: "(string, U8a) IMethod" where
  "noMetaMethod = \<lparr>IMethod.args = [], IMethod.meta = None, IMethod.hash = []\<rparr>"

definition badTypeMeta :: FunctionMetadataLatest where
  "badTypeMeta =
     \<lparr>FunctionMetadataLatest.args =
        [\<lparr>FunctionArgumentMetadata.name = Text ''dest'',
          FunctionArgumentMetadata.type = Text ''AccountId''\<rparr>,
         \<lparr>FunctionArgumentMetadata.name = Text ''data'',
          FunctionArgumentMetadata.type = Text ''[u8]''\<rparr>]\<rparr>"

definition badTypeMethod :: "(string, U8a) IMethod" where
  "badTypeMethod =
     \<lparr>IMethod.args = [''5Grw'', ''0x00''], IMethod.meta = Some badTypeMeta,
      IMethod.hash = []\<rparr>"

text \<open>What extraction returns on the transfer method with no flag and no call name.\<close>

definition plainExtracted :: "(string, string, string list) Extracted" where
  "plainExtracted =
     \<lparr>hash = Null, overrides = Undefined,
      params = [\<lparr>Param.name = ''dest'', Param.type = ''AccountId''\<rparr>,
                \<lparr>Param.name = ''value'', Param.type = ''Balance''\<rparr>],
      signature = Null, signatureType = Null,
      values = [\<lparr>isValid = True, val = ''5Grw''\<rparr>, \<lparr>isValid = True, val = ''500''\<rparr>]\<rparr>"

text \<open>What it returns on the signed transfer with both flags and a registered call name.\<close>

definition signedExtracted :: "(string, string, string list) Extracted" where
  "signedExtracted =
     \<lparr>hash = Defined ''0x01abff'', overrides = Defined [''Balance''],
      params = [\<lparr>Param.name = ''dest'', Param.type = ''AccountId''\<rparr>,
                \<lparr>Param.name = ''value'', Param.type = ''Balance''\<rparr>],
      signature = Defined ''0x0a10'', signatureType = Defined ''Sr25519'',
      values = [\<lparr>isValid = True, val = ''5Grw''\<rparr>, \<lparr>isValid = True, val = ''500''\<rparr>]\<rparr>"

text \<open>
  A world in which \<^verbatim>\<open>getTypeDef\<close> keeps a call count in the state and puts it into its
  result; every other step only reads.
\<close>

definition countingWorld ::
  "(nat, (string, U8a) Input, string, U8a, string list, string) World" where
  "countingWorld =
     \<lparr>read_balanceCalls = (\<lambda>s. ([], s)),
      read_balanceCallsOverrides = (\<lambda>s. ([], s)),
      call_getTypeDef = (\<lambda>t s. (Inr (t @ replicate s CHR ''!''), Suc s)),
      call_toHex = (\<lambda>h s. (u8aToHex h, s)),
      read_meta = (\<lambda>v s. (IMethod.meta (methodOf v), s)),
      read_args = (\<lambda>v s. (IMethod.args (methodOf v), s)),
      read_hash = (\<lambda>v s. (IMethod.hash (methodOf v), s)),
      read_signature = (\<lambda>v s. (None, s)),
      read_isSigned = (\<lambda>v s. (False, s)),
      read_raw = (\<lambda>v s. (None, s))\<rparr>"

section \<open>Properties of the helpers\<close>

lemma map_throwing_Cons_Inr:
  "map_throwing f (x # xs) = Inr zs \<longleftrightarrow>
   (\<exists>y ys. zs = y # ys \<and> f x = Inr y \<and> map_throwing f xs = Inr ys)"
  by (cases "f x"; cases "map_throwing f xs") auto

lemma map_throwing_Inr_iff:
  "map_throwing f xs = Inr ys \<longleftrightarrow> list_all2 (\<lambda>x y. f x = Inr y) xs ys"
proof (induction xs arbitrary: ys)
  case Nil
  show ?case by auto
next
  case (Cons x xs)
  show ?case
    unfolding map_throwing_Cons_Inr list_all2_Cons1 Cons.IH by blast
qed

lemma map_throwing_returns_iff:
  "(\<exists>ys. map_throwing f xs = Inr ys) \<longleftrightarrow> (\<forall>x \<in> set xs. \<exists>y. f x = Inr y)"
  by (induction xs) (auto split: sum.splits)

lemma toParam_Inr:
  "toParam imp a = Inr p \<Longrightarrow>
   Param.name p = toString (FunctionArgumentMetadata.name a) \<and>
   getTypeDef imp (toString (FunctionArgumentMetadata.type a)) = Inr (Param.type p)"
  by (auto simp: toParam_def split: sum.splits)

lemma toParam_returns_iff:
  "(\<exists>p. toParam imp a = Inr p) \<longleftrightarrow>
   (\<exists>td. getTypeDef imp (toString (FunctionArgumentMetadata.type a)) = Inr td)"
  by (auto simp: toParam_def split: sum.splits)

lemma params_length:
  "map_throwing (toParam imp) as = Inr ps \<Longrightarrow> length ps = length as"
  by (simp add: map_throwing_Inr_iff list_all2_lengthD)

lemma params_names:
  "map_throwing (toParam imp) as = Inr ps \<Longrightarrow>
   map Param.name ps = map (\<lambda>a. toString (FunctionArgumentMetadata.name a)) as"
proof (induction as arbitrary: ps)
  case Nil
  then show ?case by simp
next
  case (Cons a as)
  then show ?case
    by (auto split: sum.splits dest: toParam_Inr)
qed

lemma extractState_no_meta:
  "IMethod.meta (methodOf v) = None \<Longrightarrow> extractState imp v wh ws cn = Inl TypeError"
  by (simp add: extractState_def)

lemma extractState_bad_type:
  "IMethod.meta (methodOf v) = Some mt \<Longrightarrow>
   map_throwing (toParam imp) (FunctionMetadataLatest.args mt) = Inl err \<Longrightarrow>
   extractState imp v wh ws cn = Inl err"
  by (simp add: extractState_def)

lemma extractState_Method:
  "IMethod.meta m = Some mt \<Longrightarrow>
   map_throwing (toParam imp) (FunctionMetadataLatest.args mt) = Inr ps \<Longrightarrow>
   extractState imp (Method m) wh ws cn =
     Inr \<lparr>hash = (if truthy_flag wh then Defined (toHex imp (IMethod.hash m)) else Null),
          overrides =
            (if truthy_string cn \<and> (\<exists>n. cn = Some n \<and> n \<in> set (balanceCalls imp))
             then Defined (balanceCallsOverrides imp) else Undefined),
          params = ps, signature = Null, signatureType = Null,
          values = map (\<lambda>x. \<lparr>isValid = True, val = x\<rparr>) (IMethod.args m)\<rparr>"
  by (cases cn) (simp_all add: extractState_def)

lemma extractState_Extrinsic:
  "IMethod.meta x = Some mt \<Longrightarrow>
   map_throwing (toParam imp) (FunctionMetadataLatest.args mt) = Inr ps \<Longrightarrow>
   extractState imp (Extrinsic x) wh ws cn =
     Inr \<lparr>hash = (if truthy_flag wh then Defined (toHex imp (IMethod.hash x)) else Null),
          overrides =
            (if truthy_string cn \<and> (\<exists>n. cn = Some n \<and> n \<in> set (balanceCalls imp))
             then Defined (balanceCallsOverrides imp) else Undefined),
          params = ps,
          signature =
            (if truthy_flag ws \<and> isSigned x
             then Defined (toHex imp (IExtrinsic.signature x)) else Null),
          signatureType =
            (if truthy_flag ws \<and> isSigned x
             then (case getRawSignature x of Some (Enum t) \<Rightarrow> Defined t | _ \<Rightarrow> Null)
             else Null),
          values = map (\<lambda>x. \<lparr>isValid = True, val = x\<rparr>) (IMethod.args x)\<rparr>"
  by (cases cn) (simp_all add: extractState_def IMethod.truncate_def)

text \<open>What a returned record tells about the input.\<close>

lemma extractState_returned:
  assumes "extractState imp v wh ws cn = Inr e"
  obtains mt ps where "IMethod.meta (methodOf v) = Some mt"
    and "map_throwing (toParam imp) (FunctionMetadataLatest.args mt) = Inr ps"
    and "e = \<lparr>hash = (if truthy_flag wh then Defined (toHex imp (IMethod.hash (methodOf v)))
                        else Null),
               overrides =
                 (if truthy_string cn \<and> (\<exists>n. cn = Some n \<and> n \<in> set (balanceCalls imp))
                  then Defined (balanceCallsOverrides imp) else Undefined),
               params = ps,
               signature =
                 (case v of
                    Extrinsic x \<Rightarrow>
                      if truthy_flag ws \<and> isSigned x
                      then Defined (toHex imp (IExtrinsic.signature x)) else Null
                  | Method _ \<Rightarrow> Null),
               signatureType =
                 (case v of
                    Extrinsic x \<Rightarrow>
                      if truthy_flag ws \<and> isSigned x
                      then (case getRawSignature x of Some (Enum t) \<Rightarrow> Defined t | _ \<Rightarrow> Null)
                      else Null
                  | Method _ \<Rightarrow> Null),
               values = map (\<lambda>x. \<lparr>isValid = True, val = x\<rparr>) (IMethod.args (methodOf v))\<rparr>"
proof (cases "IMethod.meta (methodOf v)")
  case None
  with assms show ?thesis by (simp add: extractState_no_meta)
next
  case (Some mt)
  show ?thesis
  proof (cases "map_throwing (toParam imp) (FunctionMetadataLatest.args mt)")
    case (Inl err)
    with Some assms show ?thesis by (simp add: extractState_bad_type)
  next
    case (Inr ps)
    show ?thesis
    proof (cases v)
      case (Extrinsic x)
      with Some have mt: "IMethod.meta x = Some mt" by (simp add: IMethod.truncate_def)
      note e = assms [unfolded Extrinsic extractState_Extrinsic [OF mt Inr] sum.inject, symmetric]
      show ?thesis
        by (rule that [OF Some Inr]) (subst e, simp add: Extrinsic IMethod.truncate_def)
    next
      case (Method m)
      with Some have mt: "IMethod.meta m = Some mt" by simp
      note e = assms [unfolded Method extractState_Method [OF mt Inr] sum.inject, symmetric]
      show ?thesis
        by (rule that [OF Some Inr]) (subst e, simp add: Method)
    qed
  qed
qed

lemma returned_params:
  assumes "extractState imp v wh ws cn = Inr e"
  obtains mt where "IMethod.meta (methodOf v) = Some mt"
    and "map_throwing (toParam imp) (FunctionMetadataLatest.args mt) = Inr (params e)"
  using assms by (rule extractState_returned) simp

lemma returned_values:
  assumes "extractState imp v wh ws cn = Inr e"
  shows "values e = map (\<lambda>x. \<lparr>isValid = True, val = x\<rparr>) (IMethod.args (methodOf v))"
  using assms by (rule extractState_returned) simp

lemma returned_hash:
  assumes "extractState imp v wh ws cn = Inr e"
  shows "Extracted.hash e =
    (if truthy_flag wh then Defined (toHex imp (IMethod.hash (methodOf v))) else Null)"
  using assms by (rule extractState_returned) simp

lemma returned_overrides:
  assumes "extractState imp v wh ws cn = Inr e"
  shows "overrides e =
    (if truthy_string cn \<and> (\<exists>n. cn = Some n \<and> n \<in> set (balanceCalls imp))
     then Defined (balanceCallsOverrides imp) else Undefined)"
  using assms by (rule extractState_returned) simp

lemma returned_signature_Method:
  assumes "extractState imp (Method m) wh ws cn = Inr e"
  shows "Extracted.signature e = Null" and "signatureType e = Null"
  using assms by (rule extractState_returned, simp)+

lemma returned_signature_Extrinsic:
  assumes "extractState imp (Extrinsic x) wh ws cn = Inr e"
  shows "Extracted.signature e =
      (if truthy_flag ws \<and> isSigned x
       then Defined (toHex imp (IExtrinsic.signature x)) else Null)"
    and "signatureType e =
      (if truthy_flag ws \<and> isSigned x
       then (case getRawSignature x of Some (Enum t) \<Rightarrow> Defined t | _ \<Rightarrow> Null)
       else Null)"
  using assms by (rule extractState_returned, simp)+

lemma map_throwing_first_failure:
  "\<forall>b \<in> set accepted. \<exists>y. f b = Inr y \<Longrightarrow> f a = Inl err \<Longrightarrow>
   map_throwing f (accepted @ a # others) = Inl err"
  by (induction accepted) (auto split: sum.splits)

lemma params_nth:
  assumes "map_throwing (toParam imp) as = Inr ps" and "i < length ps"
  shows "toParam imp (as ! i) = Inr (ps ! i)"
  using assms by (simp add: map_throwing_Inr_iff list_all2_conv_all_nth)

section \<open>Properties of the sequence of reads\<close>



lemma andThen_preserved:
  "preserves m \<Longrightarrow> andThen m f s = f (fst (m s)) s"
  by (cases "m s") (auto simp: preserves_def andThen_def dest: spec [of _ s])















section \<open>The samples, evaluated\<close>

lemmas sample_defs =
  sampleImports_def sampleTypeDef_def transferMeta_def transferMethod_def signedTransfer_def
  plainExtracted_def signedExtracted_def u8aToHex_def hexDigit_def

lemma transfer_plain:
  "extractState sampleImports (Method transferMethod) None None None = Inr plainExtracted"
  by (simp add: extractState_def toParam_def sample_defs)

lemma transfer_signed:
  "extractState sampleImports (Extrinsic signedTransfer) (Some True) (Some True)
     (Some ''staking.bond'') = Inr signedExtracted"
  by (simp add: extractState_def toParam_def sample_defs getRawSignature_def
        IMethod.truncate_def)

text \<open>The grouping function of the samples never returns the empty string.\<close>

lemma natToString_nonempty: "natToString n \<noteq> []"
  by (subst natToString.simps) simp

lemma chunks3_nonempty: "xs \<noteq> [] \<Longrightarrow> chunks3 xs \<noteq> [] \<and> [] \<notin> set (chunks3 xs)"
  by (induction xs rule: chunks3.induct) auto

lemma join_nonempty: "cs \<noteq> [] \<Longrightarrow> [] \<notin> set cs \<Longrightarrow> join sep cs \<noteq> []"
  by (induction sep cs rule: join.induct) auto

lemma formatDecimal_nonempty: "ds \<noteq> [] \<Longrightarrow> formatDecimal ds \<noteq> []"
proof -
  assume "ds \<noteq> []"
  then have "rev ds \<noteq> []" by simp
  from chunks3_nonempty [OF this]
  have a: "map rev (rev (chunks3 (rev ds))) \<noteq> []"
    and b: "[] \<notin> set (map rev (rev (chunks3 (rev ds))))"
    by auto
  show ?thesis
    unfolding formatDecimal_def using a b by (rule join_nonempty)
qed

lemma formatNumber_nonempty: "formatNumber i \<noteq> Inr []"
  by (simp add: formatNumber_def formatDecimal_nonempty natToString_nonempty)

lemma formatNumber_examples:
  "formatNumber 42 = Inr ''42''"
  "formatNumber 1234567 = Inr ''1,234,567''"
  "formatNumber 0 = Inr ''0''"
  "formatNumber (- 1234) = Inr ''-1,234''"
  "formatNumber 9007199254740992 = Inl (Error ''Assertion failed'')"
  by (simp_all add: formatNumber_def formatDecimal_def natToString.simps digitChar_def)

section \<open>Claims about extractState\<close>

text \<open>
  C1. On an input whose actual arguments are aligned with its declared arguments, as
  many of the one as of the other, the record that \<^verbatim>\<open>extractState\<close> returns has
  \<^verbatim>\<open>params\<close> and \<^verbatim>\<open>values\<close> of equal length, the number of declared arguments, for
  every combination of \<^verbatim>\<open>withHash\<close>, \<^verbatim>\<open>withSignature\<close> and \<^verbatim>\<open>callName\<close>; and at each
  position \<^verbatim>\<open>params[i]\<close> carries the name and the parsed type of the i-th declared
  argument while \<^verbatim>\<open>values[i]\<close> carries the i-th actual argument.
\<close>

theorem params_describe_values:
  assumes "extractState imp v wh ws cn = Inr e"
    and "IMethod.meta (methodOf v) = Some mt"
    and "length (IMethod.args (methodOf v)) = length (FunctionMetadataLatest.args mt)"
  shows "length (params e) = length (values e) \<and>
         length (params e) = length (FunctionMetadataLatest.args mt) \<and>
         (\<forall>i < length (params e).
            Param.name (params e ! i) =
              toString (FunctionArgumentMetadata.name (FunctionMetadataLatest.args mt ! i)) \<and>
            getTypeDef imp
                (toString (FunctionArgumentMetadata.type (FunctionMetadataLatest.args mt ! i))) =
              Inr (Param.type (params e ! i)) \<and>
            val (values e ! i) = IMethod.args (methodOf v) ! i)"
proof -
  from assms(1) obtain mt' where "IMethod.meta (methodOf v) = Some mt'"
    and "map_throwing (toParam imp) (FunctionMetadataLatest.args mt') = Inr (params e)"
    by (rule returned_params)
  with assms(2)
  have ps: "map_throwing (toParam imp) (FunctionMetadataLatest.args mt) = Inr (params e)"
    by simp
  have len_p: "length (params e) = length (FunctionMetadataLatest.args mt)"
    using ps by (rule params_length)
  have vals: "values e = map (\<lambda>x. \<lparr>isValid = True, val = x\<rparr>) (IMethod.args (methodOf v))"
    using assms(1) by (rule returned_values)
  have len_v: "length (values e) = length (IMethod.args (methodOf v))"
    by (simp add: vals)
  have pos: "Param.name (params e ! i) =
        toString (FunctionArgumentMetadata.name (FunctionMetadataLatest.args mt ! i)) \<and>
      getTypeDef imp
          (toString (FunctionArgumentMetadata.type (FunctionMetadataLatest.args mt ! i))) =
        Inr (Param.type (params e ! i)) \<and>
      val (values e ! i) = IMethod.args (methodOf v) ! i"
    if "i < length (params e)" for i
  proof -
    from params_nth [OF ps that]
    have "toParam imp (FunctionMetadataLatest.args mt ! i) = Inr (params e ! i)" .
    then have "Param.name (params e ! i) =
        toString (FunctionArgumentMetadata.name (FunctionMetadataLatest.args mt ! i)) \<and>
      getTypeDef imp
          (toString (FunctionArgumentMetadata.type (FunctionMetadataLatest.args mt ! i))) =
        Inr (Param.type (params e ! i))"
      by (rule toParam_Inr)
    moreover from that len_p assms(3) have "i < length (IMethod.args (methodOf v))"
      by simp
    then have "val (values e ! i) = IMethod.args (methodOf v) ! i"
      by (simp add: vals)
    ultimately show ?thesis by simp
  qed
  from len_p len_v assms(3) pos show ?thesis
    by simp
qed

theorem params_describe_values_witness:
  "extractState sampleImports (Method transferMethod) None None None = Inr plainExtracted \<and>
   IMethod.meta (methodOf (Method transferMethod)) = Some transferMeta \<and>
   length (IMethod.args (methodOf (Method transferMethod))) =
     length (FunctionMetadataLatest.args transferMeta) \<and>
   length (params plainExtracted) = 2 \<and>
   length (values plainExtracted) = 2 \<and>
   Param.name (params plainExtracted ! 1) = ''value'' \<and>
   Param.type (params plainExtracted ! 1) = ''Balance'' \<and>
   val (values plainExtracted ! 1) = ''500''"
proof -
  have m: "IMethod.meta (methodOf (Method transferMethod)) = Some transferMeta"
    by (simp add: transferMethod_def)
  have a: "length (IMethod.args (methodOf (Method transferMethod))) =
      length (FunctionMetadataLatest.args transferMeta)"
    by (simp add: transferMethod_def transferMeta_def)
  from params_describe_values [OF transfer_plain m a] transfer_plain m a
  show ?thesis
    by (simp add: plainExtracted_def)
qed

text \<open>
  C2, as the code has it. \<^verbatim>\<open>extractState\<close> can raise. When the value's
  declared-argument metadata is absent, reading \<^verbatim>\<open>value.meta.args\<close> raises a
  \<^verbatim>\<open>TypeError\<close>; when the metadata is malformed in that \<^verbatim>\<open>getTypeDef\<close> throws on a
  declared type (having accepted the ones before it), that exception leaves
  \<^verbatim>\<open>extractState\<close>. In both cases no record is returned.
\<close>

theorem extractState_raises:
  "(IMethod.meta (methodOf v) = None \<longrightarrow> extractState imp v wh ws cn = Inl TypeError) \<and>
   (IMethod.meta (methodOf v) = Some mt \<and>
    FunctionMetadataLatest.args mt = accepted @ a # others \<and>
    (\<forall>b \<in> set accepted. \<exists>td. getTypeDef imp (toString (FunctionArgumentMetadata.type b)) = Inr td) \<and>
    getTypeDef imp (toString (FunctionArgumentMetadata.type a)) = Inl err \<longrightarrow>
    extractState imp v wh ws cn = Inl err)"
proof (intro conjI impI)
  assume "IMethod.meta (methodOf v) = None"
  then show "extractState imp v wh ws cn = Inl TypeError"
    by (rule extractState_no_meta)
next
  assume h: "IMethod.meta (methodOf v) = Some mt \<and>
    FunctionMetadataLatest.args mt = accepted @ a # others \<and>
    (\<forall>b \<in> set accepted. \<exists>td. getTypeDef imp (toString (FunctionArgumentMetadata.type b)) = Inr td) \<and>
    getTypeDef imp (toString (FunctionArgumentMetadata.type a)) = Inl err"
  then have ok: "\<forall>b \<in> set accepted. \<exists>p. toParam imp b = Inr p"
    by (simp add: toParam_returns_iff)
  from h have bad: "toParam imp a = Inl err"
    by (simp add: toParam_def)
  from h map_throwing_first_failure [OF ok bad, of others]
  have "map_throwing (toParam imp) (FunctionMetadataLatest.args mt) = Inl err"
    by simp
  with h show "extractState imp v wh ws cn = Inl err"
    by (simp add: extractState_bad_type)
qed

theorem extractState_raises_witness:
  "IMethod.meta (methodOf (Method noMetaMethod)) = None \<and>
   extractState sampleImports (Method noMetaMethod) (Some True) (Some True) None =
     Inl TypeError \<and>
   IMethod.meta (methodOf (Method badTypeMethod)) = Some badTypeMeta \<and>
   sampleTypeDef ''AccountId'' = Inr ''AccountId'' \<and>
   sampleTypeDef ''[u8]'' = Inl (Error ''[u8]: Unable to extract location of ;'') \<and>
   extractState sampleImports (Method badTypeMethod) None None None =
     Inl (Error ''[u8]: Unable to extract location of ;'')"
  using extractState_raises
          [where v = "Method noMetaMethod" and imp = sampleImports and wh = "Some True"
             and ws = "Some True" and cn = None]
        extractState_raises
          [where v = "Method badTypeMethod" and imp = sampleImports and wh = None
             and ws = None and cn = None and mt = badTypeMeta
             and accepted = "[\<lparr>FunctionArgumentMetadata.name = Text ''dest'',
                            FunctionArgumentMetadata.type = Text ''AccountId''\<rparr>]"
             and a = "\<lparr>FunctionArgumentMetadata.name = Text ''data'',
                         FunctionArgumentMetadata.type = Text ''[u8]''\<rparr>"
             and others = "[]" and err = "Error ''[u8]: Unable to extract location of ;''"]
  by (simp add: noMetaMethod_def badTypeMethod_def badTypeMeta_def sampleImports_def
        sampleTypeDef_def)

text \<open>
  C2 as stated fails: on a method whose metadata is absent \<^verbatim>\<open>extractState\<close> raises, and
  returns no record, empty or otherwise.
\<close>

theorem missing_meta_raises_counterexample:
  "extractState sampleImports (Method noMetaMethod) None None None = Inl TypeError"
  by (simp add: extractState_def noMetaMethod_def)

text \<open>
  C3. On an extrinsic that reports itself signed, with \<^verbatim>\<open>withSignature\<close> true,
  \<^verbatim>\<open>extractState\<close> returns as \<^verbatim>\<open>signature\<close> the \<^verbatim>\<open>toHex()\<close> rendering of the signature.
  \<^verbatim>\<open>signatureType\<close> is the tag of the raw signature wrapper
  \<^verbatim>\<open>_raw.signature.multiSignature\<close> when that wrapper is an \<^verbatim>\<open>Enum\<close>; it is null when
  \<^verbatim>\<open>_raw\<close>, \<^verbatim>\<open>_raw.signature\<close> or the wrapper is absent, and when the wrapper is not an
  \<^verbatim>\<open>Enum\<close>.
\<close>

theorem signed_extrinsic_signature:
  assumes "extractState imp (Extrinsic x) wh (Some True) cn = Inr e"
    and "isSigned x"
  shows "Extracted.signature e = Defined (toHex imp (IExtrinsic.signature x)) \<and>
         signatureType e =
           (case raw x of
              None \<Rightarrow> Null
            | Some (RawExtrinsic None) \<Rightarrow> Null
            | Some (RawExtrinsic (Some (RawSignature None))) \<Rightarrow> Null
            | Some (RawExtrinsic (Some (RawSignature (Some NotEnum)))) \<Rightarrow> Null
            | Some (RawExtrinsic (Some (RawSignature (Some (Enum tag))))) \<Rightarrow> Defined tag)"
  using returned_signature_Extrinsic [OF assms(1)] assms(2)
  by (simp add: getRawSignature_def
        split: option.split ExtrinsicSignature.split RawExtrinsic.split RawSignature.split)

theorem signed_extrinsic_signature_witness:
  "extractState sampleImports (Extrinsic signedTransfer) (Some True) (Some True)
     (Some ''staking.bond'') = Inr signedExtracted \<and>
   isSigned signedTransfer \<and>
   raw signedTransfer = Some (RawExtrinsic (Some (RawSignature (Some (Enum ''Sr25519''))))) \<and>
   Extracted.signature signedExtracted = Defined (u8aToHex [0x0a, 0x10]) \<and>
   signatureType signedExtracted = Defined ''Sr25519'' \<and>
   extractState sampleImports (Extrinsic unwrappedTransfer) (Some True) (Some True)
     (Some ''staking.bond'') = Inr (signedExtracted\<lparr>signatureType := Null\<rparr>) \<and>
   isSigned unwrappedTransfer \<and>
   raw unwrappedTransfer = None \<and>
   Extracted.signature (signedExtracted\<lparr>signatureType := Null\<rparr>) = Defined ''0x0a10'' \<and>
   signatureType (signedExtracted\<lparr>signatureType := Null\<rparr>) = Null \<and>
   extractState sampleImports (Extrinsic untaggedTransfer) (Some True) (Some True)
     (Some ''staking.bond'') = Inr (signedExtracted\<lparr>signatureType := Null\<rparr>) \<and>
   isSigned untaggedTransfer \<and>
   raw untaggedTransfer = Some (RawExtrinsic (Some (RawSignature (Some NotEnum))))"
proof -
  have s1: "isSigned signedTransfer" and s2: "isSigned unwrappedTransfer"
    and s3: "isSigned untaggedTransfer"
    by (simp_all add: signedTransfer_def unwrappedTransfer_def untaggedTransfer_def)
  have r2: "extractState sampleImports (Extrinsic unwrappedTransfer) (Some True) (Some True)
      (Some ''staking.bond'') = Inr (signedExtracted\<lparr>signatureType := Null\<rparr>)"
    by (simp add: extractState_def toParam_def sample_defs unwrappedTransfer_def
          getRawSignature_def IMethod.truncate_def)
  have r3: "extractState sampleImports (Extrinsic untaggedTransfer) (Some True) (Some True)
      (Some ''staking.bond'') = Inr (signedExtracted\<lparr>signatureType := Null\<rparr>)"
    by (simp add: extractState_def toParam_def sample_defs untaggedTransfer_def
          getRawSignature_def IMethod.truncate_def)
  from signed_extrinsic_signature [OF transfer_signed s1]
    signed_extrinsic_signature [OF r2 s2] signed_extrinsic_signature [OF r3 s3]
    transfer_signed r2 r3 s1 s2 s3
  show ?thesis
    by (simp add: sample_defs unwrappedTransfer_def untaggedTransfer_def)
qed

text \<open>
  C4. On a method, which has no signature member, \<^verbatim>\<open>extractState\<close> returns
  \<^verbatim>\<open>signature\<close> null and \<^verbatim>\<open>signatureType\<close> null whatever \<^verbatim>\<open>withSignature\<close> is, true
  included.
\<close>

theorem method_has_no_signature:
  assumes "extractState imp (Method m) wh ws cn = Inr e"
  shows "Extracted.signature e = Null \<and> signatureType e = Null"
  using returned_signature_Method [OF assms] by simp

theorem method_has_no_signature_witness:
  "extractState sampleImports (Method transferMethod) (Some True) (Some True)
     (Some ''balances.transfer'') =
   Inr (plainExtracted\<lparr>hash := Defined ''0x01abff'', overrides := Defined [''Balance'']\<rparr>) \<and>
   Extracted.signature
     (plainExtracted\<lparr>hash := Defined ''0x01abff'', overrides := Defined [''Balance'']\<rparr>) = Null \<and>
   signatureType
     (plainExtracted\<lparr>hash := Defined ''0x01abff'', overrides := Defined [''Balance'']\<rparr>) = Null"
proof -
  have run: "extractState sampleImports (Method transferMethod) (Some True) (Some True)
      (Some ''balances.transfer'') =
    Inr (plainExtracted\<lparr>hash := Defined ''0x01abff'', overrides := Defined [''Balance'']\<rparr>)"
    by (simp add: extractState_def toParam_def sample_defs)
  from method_has_no_signature [OF run] run show ?thesis by simp
qed

text \<open>
  C5, as the code has it. When \<^verbatim>\<open>callName\<close> is a non-empty string that
  \<^verbatim>\<open>balanceCalls\<close> holds, \<^verbatim>\<open>extractState\<close> returns \<^verbatim>\<open>balanceCallsOverrides\<close> as
  \<^verbatim>\<open>overrides\<close>. Otherwise, with \<^verbatim>\<open>callName\<close> not supplied, empty or not in the
  registry, \<^verbatim>\<open>overrides\<close> is \<^verbatim>\<open>undefined\<close> (the member is declared
  \<^verbatim>\<open>overrides?: ComponentMap\<close>). It is never null.
\<close>

theorem overrides_from_registry:
  assumes "extractState imp v wh ws cn = Inr e"
  shows "overrides e =
           (case cn of
              None \<Rightarrow> Undefined
            | Some n \<Rightarrow>
                if n \<noteq> [] \<and> n \<in> set (balanceCalls imp)
                then Defined (balanceCallsOverrides imp)
                else Undefined) \<and>
         overrides e \<noteq> Null"
  using returned_overrides [OF assms]
  by (cases cn) auto

theorem overrides_from_registry_witness:
  "extractState sampleImports (Extrinsic signedTransfer) (Some True) (Some True)
     (Some ''staking.bond'') = Inr signedExtracted \<and>
   ''staking.bond'' \<in> set (balanceCalls sampleImports) \<and>
   overrides signedExtracted = Defined (balanceCallsOverrides sampleImports) \<and>
   extractState sampleImports (Method transferMethod) None None None = Inr plainExtracted \<and>
   overrides plainExtracted = Undefined"
  using overrides_from_registry [OF transfer_signed] overrides_from_registry [OF transfer_plain]
    transfer_signed transfer_plain
  by (simp add: sampleImports_def)

text \<open>
  C5 as stated fails: with a call name that is not in the registry, \<^verbatim>\<open>overrides\<close> is
  \<^verbatim>\<open>undefined\<close>, which \<^verbatim>\<open>=== null\<close> does not accept.
\<close>

theorem overrides_undefined_counterexample:
  "extractState sampleImports (Method transferMethod) None None (Some ''system.remark'') =
     Inr plainExtracted \<and>
   ''system.remark'' \<notin> set (balanceCalls sampleImports) \<and>
   overrides plainExtracted = Undefined \<and>
   overrides plainExtracted \<noteq> Null"
  by (simp add: extractState_def toParam_def sample_defs)

text \<open>
  C6. \<^verbatim>\<open>extractState\<close> returns \<^verbatim>\<open>hash\<close> null when \<^verbatim>\<open>withHash\<close> is false or not supplied,
  and the \<^verbatim>\<open>toHex()\<close> rendering of the value's content hash when \<^verbatim>\<open>withHash\<close> is true.
\<close>

theorem hash_follows_withHash:
  assumes "extractState imp v wh ws cn = Inr e"
  shows "(wh = None \<or> wh = Some False \<longrightarrow> Extracted.hash e = Null) \<and>
         (wh = Some True \<longrightarrow>
            Extracted.hash e = Defined (toHex imp (IMethod.hash (methodOf v))))"
  using returned_hash [OF assms] by auto

theorem hash_follows_withHash_witness:
  "extractState sampleImports (Method transferMethod) None None None = Inr plainExtracted \<and>
   Extracted.hash plainExtracted = Null \<and>
   extractState sampleImports (Extrinsic signedTransfer) (Some True) (Some True)
     (Some ''staking.bond'') = Inr signedExtracted \<and>
   Extracted.hash signedExtracted = Defined (u8aToHex [0x01, 0xab, 0xff]) \<and>
   u8aToHex [0x01, 0xab, 0xff] = ''0x01abff''"
  using hash_follows_withHash [OF transfer_plain] hash_follows_withHash [OF transfer_signed]
    transfer_plain transfer_signed
  by (simp add: sample_defs IMethod.truncate_def)

text \<open>
  C7. Every element of the \<^verbatim>\<open>values\<close> array that \<^verbatim>\<open>extractState\<close> returns has
  \<^verbatim>\<open>isValid\<close> true, for every input and every combination of the arguments.
\<close>

theorem values_all_valid:
  assumes "extractState imp v wh ws cn = Inr e"
  shows "\<forall>x \<in> set (values e). isValid x"
  using returned_values [OF assms] by simp

theorem values_all_valid_witness:
  "extractState sampleImports (Extrinsic signedTransfer) (Some True) (Some True)
     (Some ''staking.bond'') = Inr signedExtracted \<and>
   length (values signedExtracted) = 2 \<and>
   list_all isValid (values signedExtracted)"
  using values_all_valid [OF transfer_signed] transfer_signed
  by (simp add: signedExtracted_def)



text \<open>
  The hypothesis is needed: where \<^verbatim>\<open>getTypeDef\<close> counts its calls, the second of two
  calls on the same arguments returns other type descriptors than the first.
\<close>

lemma counting_getTypeDef_differs:
  "fst (extractState_st countingWorld (Method transferMethod) None None None 0) =
     Inr (plainExtracted\<lparr>params :=
            [\<lparr>Param.name = ''dest'', Param.type = ''AccountId''\<rparr>,
             \<lparr>Param.name = ''value'', Param.type = ''Balance!''\<rparr>]\<rparr>) \<and>
   snd (extractState_st countingWorld (Method transferMethod) None None None 0) = 2 \<and>
   fst (extractState_st countingWorld (Method transferMethod) None None None 2) =
     Inr (plainExtracted\<lparr>params :=
            [\<lparr>Param.name = ''dest'', Param.type = ''AccountId!!''\<rparr>,
             \<lparr>Param.name = ''value'', Param.type = ''Balance!!!''\<rparr>]\<rparr>)"
  by (simp add: extractState_st_def overrides_st_def hash_st_def signature_st_def
        toParam_st_def andThen_def ret_def countingWorld_def transferMethod_def
        transferMeta_def plainExtracted_def numeral_2_eq_2 numeral_3_eq_3)




section \<open>Claims about ProposedAction\<close>

text \<open>
  C9, as the code has it. Called with no proposal, \<^verbatim>\<open>ProposedAction\<close> renders the fixed
  message \<^verbatim>\<open>No execution details available for this proposal\<close> (translated), after the
  identifier when there is a truthy one. A numeric \<^verbatim>\<open>idNumber\<close> goes through
  \<^verbatim>\<open>formatNumber\<close> and, when that returns, its result becomes the prefix \<^verbatim>\<open>#<id>: \<close>, so
  that 42 gives \<^verbatim>\<open>#42: \<close> before the message; when \<^verbatim>\<open>formatNumber\<close> throws, so does
  the component. A non-empty string \<^verbatim>\<open>idNumber\<close> becomes the prefix as it is. With no
  \<^verbatim>\<open>idNumber\<close>, and with the empty string, the text is the message alone.
\<close>

theorem ProposedAction_without_proposal:
  assumes "proposal = Undefined \<or> proposal = Null"
  shows "ProposedAction t fmt cls None proposal =
           Inr (Placeholder (''ui--ProposedAction '' @ (case cls of None \<Rightarrow> [] | Some c \<Rightarrow> c))
                  (t ''No execution details available for this proposal'')) \<and>
         (fmt n = Inr s \<and> s \<noteq> [] \<longrightarrow>
            ProposedAction t fmt cls (Some (Num n)) proposal =
              Inr (Placeholder (''ui--ProposedAction '' @ (case cls of None \<Rightarrow> [] | Some c \<Rightarrow> c))
                     (''#'' @ s @ '': '' @ t ''No execution details available for this proposal''))) \<and>
         (fmt n = Inl err \<longrightarrow> ProposedAction t fmt cls (Some (Num n)) proposal = Inl err) \<and>
         (s \<noteq> [] \<longrightarrow>
            ProposedAction t fmt cls (Some (Str s)) proposal =
              Inr (Placeholder (''ui--ProposedAction '' @ (case cls of None \<Rightarrow> [] | Some c \<Rightarrow> c))
                     (''#'' @ s @ '': '' @ t ''No execution details available for this proposal''))) \<and>
         ProposedAction t fmt cls (Some (Str [])) proposal =
           Inr (Placeholder (''ui--ProposedAction '' @ (case cls of None \<Rightarrow> [] | Some c \<Rightarrow> c))
                  (t ''No execution details available for this proposal''))"
  using assms by (auto simp: ProposedAction_def)

theorem ProposedAction_without_proposal_witness:
  "formatNumber 42 = Inr ''42'' \<and>
   ProposedAction id formatNumber None (Some (Num 42)) (Undefined :: unit optional) =
     Inr (Placeholder ''ui--ProposedAction ''
            ''#42: No execution details available for this proposal'') \<and>
   formatNumber 1234567 = Inr ''1,234,567'' \<and>
   ProposedAction id formatNumber None (Some (Num 1234567)) (Null :: unit optional) =
     Inr (Placeholder ''ui--ProposedAction ''
            ''#1,234,567: No execution details available for this proposal'') \<and>
   formatNumber 9007199254740992 = Inl (Error ''Assertion failed'') \<and>
   ProposedAction id formatNumber None (Some (Num 9007199254740992)) (Undefined :: unit optional) =
     Inl (Error ''Assertion failed'') \<and>
   ProposedAction id formatNumber None (Some (Str ''7b'')) (Undefined :: unit optional) =
     Inr (Placeholder ''ui--ProposedAction ''
            ''#7b: No execution details available for this proposal'') \<and>
   ProposedAction id formatNumber None None (Undefined :: unit optional) =
     Inr (Placeholder ''ui--ProposedAction ''
            ''No execution details available for this proposal'')"
  using ProposedAction_without_proposal
          [where proposal = "Undefined :: unit optional" and t = id and fmt = formatNumber
             and cls = None and n = 42 and s = "''42''"]
        ProposedAction_without_proposal
          [where proposal = "Null :: unit optional" and t = id and fmt = formatNumber
             and cls = None and n = 1234567 and s = "''1,234,567''"]
        ProposedAction_without_proposal
          [where proposal = "Undefined :: unit optional" and t = id and fmt = formatNumber
             and cls = None and n = 9007199254740992 and s = "''7b''"
             and err = "Error ''Assertion failed''"]
  by (simp add: formatNumber_examples)

text \<open>
  C9 as stated fails: the empty string is a string \<^verbatim>\<open>idNumber\<close>, yet it is not passed
  on as a prefix; the text is the message alone, not \<^verbatim>\<open>#: \<close> and the message.
\<close>

theorem empty_string_id_counterexample:
  "ProposedAction id formatNumber None (Some (Str [])) (Undefined :: unit optional) =
     Inr (Placeholder ''ui--ProposedAction ''
            ''No execution details available for this proposal'') \<and>
   ProposedAction id formatNumber None (Some (Str [])) (Undefined :: unit optional) \<noteq>
     Inr (Placeholder ''ui--ProposedAction ''
            ''#: No execution details available for this proposal'')"
  by (simp add: ProposedAction_def)

end
